theory Spec2Isabelle
  imports Main
begin

section \<open>Data model\<close>

text \<open>
  The shape of \<open>AuthRequest["user"]\<close> (middleware/auth.ts): a user carries the
  join rows \<open>roles[]\<close>, each holding a \<open>role\<close>, whose \<open>permissions[]\<close> are join
  rows holding a \<open>permission\<close>.  The identifiers of users and rows are
  integers, which the Prisma client hands to JavaScript as they are; the only
  number made from text is the one \<open>parseInt\<close> reads from the request.
  Strings are lists of code units below 256.
\<close>

record permission =
  permission_id :: int
  permission_name :: string

record rolePermission =
  permission :: permission

record role =
  role_id :: int
  role_name :: string
  role_permissions :: "rolePermission list"

record userRole =
  role :: role

record user =
  user_id :: int
  user_email :: string
  user_name :: "string option"
  user_roles :: "userRole list"

text \<open>Rows of the two tables the ReBAC middleware reads.\<close>

record patientRecord =
  record_id :: int
  patientName :: string
  data :: string
  ownerId :: int

record relationship =
  relationship_id :: int
  subjectId :: int
  objectId :: int
  rel_type :: string

text \<open>The database: each table is the list of its rows.\<close>

record database =
  users :: "user list"
  patientRecords :: "patientRecord list"
  relationships :: "relationship list"

text \<open>
  The error classes of utils/errors.ts that the two middlewares and the record
  service use, each with its message.  \<open>PrismaClientError\<close> stands for whatever
  the Prisma client throws when a read fails; it is an instance of none of the
  application's classes.
\<close>

datatype error =
  BadRequestError string
  | UnauthorizedError string
  | ForbiddenError string
  | NotFoundError string
  | DatabaseError string
  | PrismaClientError string

text \<open>A middleware ends by calling \<open>next()\<close> or \<open>next(error)\<close>.\<close>

datatype outcome = Next "error option"

datatype level = Debug | Warn | Error

text \<open>
  A JavaScript number as \<open>parseInt\<close> can return it: not a number, a double
  whose value is the integer given, or an infinity.
\<close>

datatype number = NaN | Num int | PosInfinity | NegInfinity

text \<open>
  The two queries issued: each \<open>findUnique\<close> with its \<open>where\<close> argument.  The
  record is asked for by the number parsed from the request.
\<close>

datatype query =
  PatientRecordFindUnique number
  | RelationshipFindUnique int int string

text \<open>
  The world a middleware runs in: the database, the read failures that will
  happen (\<open>fault w k q\<close> is the message of the exception thrown if \<open>q\<close> is issued
  as query number \<open>k\<close>), the queries issued so far, each with its failure if it
  failed, and the lines logged so far (level and message; the metadata object
  of a log call is left out).
\<close>

record world =
  store :: database
  fault :: "nat \<Rightarrow> query \<Rightarrow> string option"
  queries :: "(query \<times> string option) list"
  logs :: "(level \<times> string) list"

record request =
  user :: "user option"
  params_id :: "string option"

section \<open>Numbers and strings of JavaScript\<close>

subsection \<open>Doubles that hold integers\<close>

text \<open>The number of binary digits of a natural number.\<close>

fun bit_length :: "nat \<Rightarrow> nat" where
  "bit_length n = (if n = 0 then 0 else Suc (bit_length (n div 2)))"

declare bit_length.simps [simp del]

text \<open>
  The double nearest to a natural number, as a natural number: every integer
  below \<open>2^53\<close> is a double; above, the 53 leading binary digits are kept and
  the rest is rounded to nearest, ties to the even significand.  \<open>None\<close> is the
  overflow to \<open>Infinity\<close>.
\<close>

definition round_double :: "nat \<Rightarrow> nat option" where
  "round_double n =
     (if n < 2 ^ 53 then Some n
      else
        (let e = bit_length n - 53;
             q = n div 2 ^ e;
             r = n mod 2 ^ e;
             h = 2 ^ (e - 1);
             q' = (if h < r \<or> (r = h \<and> odd q) then q + 1 else q);
             d = q' * 2 ^ e
         in if 2 ^ 1024 \<le> d then None else Some d))"

subsection \<open>Number to string\<close>

definition digit_char :: "nat \<Rightarrow> char" where
  "digit_char d = ''0123456789'' ! (d mod 10)"

fun string_of_nat :: "nat \<Rightarrow> string" where
  "string_of_nat n =
     (if n < 10 then [digit_char n] else string_of_nat (n div 10) @ [digit_char (n mod 10)])"

declare string_of_nat.simps [simp del]

text \<open>
  \<open>Number::toString\<close> prints the decimal number with the fewest significant
  digits that still rounds to the double, and of those the closest one (the
  even one on a tie).  \<open>candidate x p\<close> is that number among the multiples of
  \<open>p\<close>, if one of them rounds to \<open>x\<close>; \<open>shortest x e\<close> tries \<open>e\<close> trailing zeros
  first, then fewer.
\<close>

definition candidate :: "nat \<Rightarrow> nat \<Rightarrow> nat option" where
  "candidate x p =
     (let lo = (x div p) * p;
          hi = lo + p;
          lo_ok = (round_double lo = Some x);
          hi_ok = (round_double hi = Some x)
      in if lo_ok \<and> hi_ok then
           Some (if x - lo < hi - x then lo
                 else if hi - x < x - lo then hi
                 else if even (x div p) then lo else hi)
         else if lo_ok then Some lo
         else if hi_ok then Some hi
         else None)"

fun shortest :: "nat \<Rightarrow> nat \<Rightarrow> nat" where
  "shortest x 0 = x"
| "shortest x (Suc e) = (case candidate x (10 ^ Suc e) of Some v \<Rightarrow> v | None \<Rightarrow> shortest x e)"

text \<open>From \<open>10^21\<close> on the digits are printed in exponent form, as in \<open>1.5e+21\<close>.\<close>

definition exponent_form :: "nat \<Rightarrow> string" where
  "exponent_form v =
     (let ds = string_of_nat v;
          ex = string_of_nat (length ds - 1)
      in case rev (dropWhile (\<lambda>c. c = CHR ''0'') (rev ds)) of
           [] \<Rightarrow> ''0''
         | [c] \<Rightarrow> c # ''e+'' @ ex
         | c # cs \<Rightarrow> c # CHR ''.'' # cs @ ''e+'' @ ex)"

text \<open>
  The string of a double that holds the natural number \<open>x\<close>.  Below \<open>2^53\<close> the
  fewest digits that round to \<open>x\<close> are the digits of \<open>x\<close> itself.
\<close>

definition string_of_double :: "nat \<Rightarrow> string" where
  "string_of_double x =
     (if x < 2 ^ 53 then string_of_nat x
      else
        (let v = shortest x (length (string_of_nat x) - 1)
         in if v < 10 ^ 21 then string_of_nat v else exponent_form v))"

text \<open>\<open>String(n)\<close>, as a template literal \<open>${n}\<close> computes it.\<close>

fun string_of_number :: "number \<Rightarrow> string" where
  "string_of_number NaN = ''NaN''"
| "string_of_number PosInfinity = ''Infinity''"
| "string_of_number NegInfinity = ''-Infinity''"
| "string_of_number (Num i) =
     (if i < 0 then CHR ''-'' # string_of_double (nat (- i)) else string_of_double (nat i))"

text \<open>
  An identifier read from the database is held by JavaScript as the double
  nearest to it.
\<close>

definition number_of_int :: "int \<Rightarrow> number" where
  "number_of_int i =
     (case round_double (nat \<bar>i\<bar>) of
        None \<Rightarrow> (if i < 0 then NegInfinity else PosInfinity)
      | Some d \<Rightarrow> Num (if i < 0 then - int d else int d))"

definition string_of_int :: "int \<Rightarrow> string" where
  "string_of_int i = string_of_number (number_of_int i)"

subsection \<open>String to number\<close>

text \<open>
  \<open>parseInt(s, 10)\<close>: leading white space is skipped, one sign is read, then the
  longest run of decimal digits; no digit gives \<open>NaN\<close>.  The result is the double
  nearest to the integer read (\<open>-0\<close> is \<open>0\<close> here), an infinity when the digits
  overflow.  The rounding is the exact one, as V8 does it (the standard lets an
  implementation replace the digits after the twentieth by zeros).
\<close>

definition isWhiteSpace :: "char \<Rightarrow> bool" where
  "isWhiteSpace c = (c \<in> set [CHR 0x09, CHR 0x0A, CHR 0x0B, CHR 0x0C, CHR 0x0D, CHR 0x20, CHR 0xA0])"

definition isDigit :: "char \<Rightarrow> bool" where
  "isDigit c = (c \<in> set ''0123456789'')"

definition digit_value :: "char \<Rightarrow> nat" where
  "digit_value c = of_char c - 48"

definition parseInt10 :: "string \<Rightarrow> number" where
  "parseInt10 s =
     (let s1 = dropWhile isWhiteSpace s;
          neg = (case s1 of [] \<Rightarrow> False | c # _ \<Rightarrow> c = CHR ''-'');
          s2 = (case s1 of [] \<Rightarrow> [] | c # cs \<Rightarrow> if c = CHR ''+'' \<or> c = CHR ''-'' then cs else s1);
          z = takeWhile isDigit s2;
          mathInt = foldl (\<lambda>a c. 10 * a + digit_value c) 0 z
      in if z = [] then NaN
         else
           (case round_double mathInt of
              None \<Rightarrow> (if neg then NegInfinity else PosInfinity)
            | Some d \<Rightarrow> Num (if neg then - int d else int d)))"

text \<open>\<open>!id\<close>, \<open>isNaN(id)\<close> and \<open>id < 1\<close> on a number.\<close>

fun falsy :: "number \<Rightarrow> bool" where
  "falsy NaN = True"
| "falsy (Num k) = (k = 0)"
| "falsy PosInfinity = False"
| "falsy NegInfinity = False"

fun isNaN :: "number \<Rightarrow> bool" where
  "isNaN NaN = True"
| "isNaN (Num k) = False"
| "isNaN PosInfinity = False"
| "isNaN NegInfinity = False"

fun less_than :: "number \<Rightarrow> int \<Rightarrow> bool" where
  "less_than NaN m = False"
| "less_than (Num k) m = (k < m)"
| "less_than PosInfinity m = False"
| "less_than NegInfinity m = True"

text \<open>\<open>req.params.id\<close> converted to a string: a missing parameter is \<open>undefined\<close>.\<close>

definition to_string :: "string option \<Rightarrow> string" where
  "to_string p = (case p of None \<Rightarrow> ''undefined'' | Some s \<Rightarrow> s)"

section \<open>The logger and the Prisma client\<close>

definition logger :: "level \<Rightarrow> string \<Rightarrow> world \<Rightarrow> world" where
  "logger l m w = w\<lparr>logs := logs w @ [(l, m)]\<rparr>"

text \<open>
  A read either throws (the failure decided by \<open>fault\<close>, which stands for
  whatever makes the client throw) or returns the row with the unique key,
  \<open>None\<close> being JavaScript's \<open>null\<close>.  A record has the identifier asked for
  when the number is the double holding exactly that integer.  A read is
  recorded in \<open>queries\<close> and leaves the database as it is.
\<close>

definition issue :: "query \<Rightarrow> world \<Rightarrow> string option \<times> world" where
  "issue q w =
     (let f = fault w (length (queries w)) q
      in (f, w\<lparr>queries := queries w @ [(q, f)]\<rparr>))"

definition patientRecord_findUnique :: "number \<Rightarrow> world \<Rightarrow> (error + patientRecord option) \<times> world" where
  "patientRecord_findUnique i w =
     (case issue (PatientRecordFindUnique i) w of
        (Some e, w') \<Rightarrow> (Inl (PrismaClientError e), w')
      | (None, w') \<Rightarrow> (Inr (find (\<lambda>r. Num (record_id r) = i) (patientRecords (store w'))), w'))"

definition relationship_findUnique ::
  "int \<Rightarrow> int \<Rightarrow> string \<Rightarrow> world \<Rightarrow> (error + relationship option) \<times> world" where
  "relationship_findUnique s ob t w =
     (case issue (RelationshipFindUnique s ob t) w of
        (Some e, w') \<Rightarrow> (Inl (PrismaClientError e), w')
      | (None, w') \<Rightarrow>
          (Inr (find (\<lambda>r. subjectId r = s \<and> objectId r = ob \<and> rel_type r = t)
                  (relationships (store w'))), w'))"

section \<open>RBAC middleware (middleware/rbac.ts)\<close>

text \<open>
  A JavaScript \<open>Set\<close> of strings is the list of its elements in insertion
  order; \<open>add\<close> leaves the set alone when the element is there.
\<close>

definition set_add :: "string \<Rightarrow> string list \<Rightarrow> string list" where
  "set_add x s = (if x \<in> set s then s else s @ [x])"

definition set_has :: "string list \<Rightarrow> string \<Rightarrow> bool" where
  "set_has s x = (x \<in> set s)"

text \<open>The inner and the outer loop of lines 20 to 25.\<close>

fun add_role_permissions :: "rolePermission list \<Rightarrow> string list \<Rightarrow> string list" where
  "add_role_permissions [] s = s"
| "add_role_permissions (rp # rps) s =
     add_role_permissions rps (set_add (permission_name (permission rp)) s)"

fun add_user_roles :: "userRole list \<Rightarrow> string list \<Rightarrow> string list" where
  "add_user_roles [] s = s"
| "add_user_roles (ur # urs) s =
     add_user_roles urs (add_role_permissions (role_permissions (role ur)) s)"

definition permissions :: "user \<Rightarrow> string list" where
  "permissions u = add_user_roles (user_roles u) []"

text \<open>The body of the \<open>try\<close> block: \<open>Inl\<close> is a throw, \<open>Inr ()\<close> is \<open>return next()\<close>.\<close>

definition rbac_try :: "string \<Rightarrow> request \<Rightarrow> world \<Rightarrow> (error + unit) \<times> world" where
  "rbac_try permissionName req w =
     (case user req of
        None \<Rightarrow> (Inl (UnauthorizedError ''User not authenticated''), w)
      | Some u \<Rightarrow>
          (let ps = permissions u in
           if set_has ps permissionName then
             (Inr (), logger Debug (''RBAC check passed: User '' @ string_of_int (user_id u)
                        @ '' has permission '' @ permissionName) w)
           else
             (Inl (ForbiddenError (''Insufficient permissions. Required: '' @ permissionName)),
              logger Warn (''RBAC check failed: User '' @ string_of_int (user_id u)
                        @ '' lacks permission '' @ permissionName) w)))"

definition rbac :: "string \<Rightarrow> request \<Rightarrow> world \<Rightarrow> outcome \<times> world" where
  "rbac permissionName req w =
     (case rbac_try permissionName req w of
        (Inr _, w') \<Rightarrow> (Next None, w')
      | (Inl e, w') \<Rightarrow>
          (case e of
             ForbiddenError _ \<Rightarrow> (Next (Some e), w')
           | UnauthorizedError _ \<Rightarrow> (Next (Some e), w')
           | _ \<Rightarrow> (Next (Some e), logger Error ''RBAC middleware error:'' w')))"

section \<open>ReBAC middleware (middleware/rebac.ts)\<close>

text \<open>
  The body of the \<open>try\<close> block.  The row read at line 31 is returned whole (the
  \<open>select\<close> keeps \<open>id\<close> and \<open>ownerId\<close>, the only fields used).
\<close>

definition rebac_try :: "string \<Rightarrow> request \<Rightarrow> world \<Rightarrow> (error + unit) \<times> world" where
  "rebac_try relationType req w =
     (case user req of
        None \<Rightarrow> (Inl (UnauthorizedError ''User not authenticated''), w)
      | Some u \<Rightarrow>
          (let i = parseInt10 (to_string (params_id req)) in
           if falsy i \<or> isNaN i \<or> less_than i 1 then
             (Inl (BadRequestError ''Invalid or missing record ID''), w)
           else
             (case patientRecord_findUnique i w of
                (Inl e, w1) \<Rightarrow> (Inl e, w1)
              | (Inr None, w1) \<Rightarrow>
                  (Inl (NotFoundError (''Record with ID '' @ string_of_number i @ '' not found'')), w1)
              | (Inr (Some r), w1) \<Rightarrow>
                  if ownerId r = user_id u then
                    (Inr (), logger Debug (''ReBAC check passed: User '' @ string_of_int (user_id u)
                               @ '' is the owner of record '' @ string_of_number i) w1)
                  else
                    (case relationship_findUnique (user_id u) (ownerId r) relationType w1 of
                       (Inl e, w2) \<Rightarrow> (Inl e, w2)
                     | (Inr (Some _), w2) \<Rightarrow>
                         (Inr (), logger Debug (''ReBAC check passed: User '' @ string_of_int (user_id u)
                                    @ '' has '' @ relationType @ '' relationship with record owner ''
                                    @ string_of_int (ownerId r)) w2)
                     | (Inr None, w2) \<Rightarrow>
                         (Inl (ForbiddenError (''No '' @ relationType
                                  @ '' relationship found with record owner'')),
                          logger Warn (''ReBAC check failed: User '' @ string_of_int (user_id u)
                                    @ '' lacks '' @ relationType @ '' relationship with record owner ''
                                    @ string_of_int (ownerId r)) w2)))))"

text \<open>The \<open>catch\<close> block: every error goes to \<open>next\<close>; the unexpected ones are logged first.\<close>

definition rebacResource :: "string \<Rightarrow> request \<Rightarrow> world \<Rightarrow> outcome \<times> world" where
  "rebacResource relationType req w =
     (case rebac_try relationType req w of
        (Inr _, w') \<Rightarrow> (Next None, w')
      | (Inl e, w') \<Rightarrow>
          (case e of
             ForbiddenError _ \<Rightarrow> (Next (Some e), w')
           | UnauthorizedError _ \<Rightarrow> (Next (Some e), w')
           | BadRequestError _ \<Rightarrow> (Next (Some e), w')
           | NotFoundError _ \<Rightarrow> (Next (Some e), w')
           | _ \<Rightarrow> (Next (Some e), logger Error ''ReBAC middleware error:'' w')))"

section \<open>Record service (services/record.service.ts)\<close>

definition getRecordById_try :: "number \<Rightarrow> world \<Rightarrow> (error + patientRecord) \<times> world" where
  "getRecordById_try i w =
     (case patientRecord_findUnique i w of
        (Inl e, w1) \<Rightarrow> (Inl e, w1)
      | (Inr None, w1) \<Rightarrow>
          (Inl (NotFoundError (''Record with ID '' @ string_of_number i @ '' not found'')), w1)
      | (Inr (Some r), w1) \<Rightarrow> (Inr r, w1))"

definition getRecordById :: "number \<Rightarrow> world \<Rightarrow> (error + patientRecord) \<times> world" where
  "getRecordById i w =
     (case getRecordById_try i w of
        (Inr r, w1) \<Rightarrow> (Inr r, w1)
      | (Inl e, w1) \<Rightarrow>
          (case e of
             NotFoundError _ \<Rightarrow> (Inl e, w1)
           | _ \<Rightarrow> (Inl (DatabaseError ''Failed to fetch record''),
                    logger Error ''Record fetch error:'' w1)))"

section \<open>Decisions\<close>

text \<open>
  How an outcome reads as a decision: \<open>next()\<close> lets the request through, and an
  error is told apart by its class (403, 404, 400, 401 in utils/errors.ts; a
  \<open>DatabaseError\<close> or an exception of the Prisma client is a failure of the
  store).
\<close>

datatype decision = Allow | Deny | NotFound | BadRequest | Unauthorized | StoreError

fun decide :: "outcome \<Rightarrow> decision" where
  "decide (Next None) = Allow"
| "decide (Next (Some (ForbiddenError _))) = Deny"
| "decide (Next (Some (NotFoundError _))) = NotFound"
| "decide (Next (Some (BadRequestError _))) = BadRequest"
| "decide (Next (Some (UnauthorizedError _))) = Unauthorized"
| "decide (Next (Some (DatabaseError _))) = StoreError"
| "decide (Next (Some (PrismaClientError _))) = StoreError"

text \<open>The queries a run has added to the ones issued before it.\<close>

definition issued :: "world \<Rightarrow> world \<Rightarrow> (query \<times> string option) list" where
  "issued w w' = drop (length (queries w)) (queries w')"

text \<open>Seed data of seed.ts, with the identifiers a fresh database gives.\<close>

definition permRead :: permission where
  "permRead = \<lparr>permission_id = 1, permission_name = ''record:read''\<rparr>"

definition permWrite :: permission where
  "permWrite = \<lparr>permission_id = 2, permission_name = ''record:write''\<rparr>"

definition doctor :: role where
  "doctor = \<lparr>role_id = 1, role_name = ''doctor'',
     role_permissions = [\<lparr>permission = permRead\<rparr>, \<lparr>permission = permWrite\<rparr>]\<rparr>"

definition nurse :: role where
  "nurse = \<lparr>role_id = 2, role_name = ''nurse'', role_permissions = [\<lparr>permission = permRead\<rparr>]\<rparr>"

definition docUser :: user where
  "docUser = \<lparr>user_id = 1, user_email = ''doc@example.com'', user_name = Some ''Dr Alice'',
     user_roles = [\<lparr>role = doctor\<rparr>]\<rparr>"

definition nurseUser :: user where
  "nurseUser = \<lparr>user_id = 2, user_email = ''nurse@example.com'', user_name = Some ''Nora Nurse'',
     user_roles = [\<lparr>role = nurse\<rparr>]\<rparr>"

definition patient :: user where
  "patient = \<lparr>user_id = 3, user_email = ''patient@example.com'', user_name = Some ''Patient Paul'',
     user_roles = []\<rparr>"

definition rec1 :: patientRecord where
  "rec1 = \<lparr>record_id = 1, patientName = ''Patient Paul'', data = ''Record A'', ownerId = 3\<rparr>"

definition rec2 :: patientRecord where
  "rec2 = \<lparr>record_id = 2, patientName = ''Patient Paul'', data = ''Record B'', ownerId = 3\<rparr>"

definition seed :: database where
  "seed = \<lparr>users = [docUser, nurseUser, patient], patientRecords = [rec1, rec2],
     relationships = [\<lparr>relationship_id = 1, subjectId = 1, objectId = 3, rel_type = ''assigned_to''\<rparr>]\<rparr>"

text \<open>A world over the seed data in which no read fails, and one in which every read fails.\<close>

definition seeded :: world where
  "seeded = \<lparr>store = seed, fault = (\<lambda>k q. None), queries = [], logs = []\<rparr>"

definition outage :: world where
  "outage = \<lparr>store = seed, fault = (\<lambda>k q. Some ''connection refused''), queries = [], logs = []\<rparr>"

text \<open>A world in which the first read succeeds and the second one times out.\<close>

definition flaky :: world where
  "flaky = \<lparr>store = seed, fault = (\<lambda>k q. if k = 1 then Some ''timeout'' else None),
     queries = [], logs = []\<rparr>"

text \<open>A user holding both the doctor and the nurse role.\<close>

definition docNurse :: user where
  "docNurse = docUser\<lparr>user_roles := [\<lparr>role = doctor\<rparr>, \<lparr>role = nurse\<rparr>]\<rparr>"

text \<open>The seed data with one more record, whose identifier is \<open>2^53\<close>.\<close>

definition rec3 :: patientRecord where
  "rec3 = \<lparr>record_id = 9007199254740992, patientName = ''Patient Paul'', data = ''Record C'',
     ownerId = 3\<rparr>"

definition seeded_large :: world where
  "seeded_large = seeded\<lparr>store := seed\<lparr>patientRecords := [rec1, rec2, rec3]\<rparr>\<rparr>"

section \<open>Helper lemmas\<close>

lemmas rebac_defs = rebacResource_def rebac_try_def patientRecord_findUnique_def
  relationship_findUnique_def issue_def logger_def issued_def Let_def

lemmas eval_defs = seeded_def outage_def flaky_def seeded_large_def seed_def rec1_def rec2_def rec3_def
  docUser_def nurseUser_def patient_def docNurse_def doctor_def nurse_def permRead_def permWrite_def
  parseInt10_def to_string_def isWhiteSpace_def isDigit_def digit_value_def round_double_def
  string_of_int_def number_of_int_def string_of_double_def string_of_nat.simps digit_char_def

subsection \<open>Identifiers below \<open>2^53\<close> written in decimal parse back to themselves\<close>

lemma digit_char_cases:
  "d < 10 \<Longrightarrow> d = 0 \<or> d = 1 \<or> d = 2 \<or> d = 3 \<or> d = 4 \<or> d = 5 \<or> d = 6 \<or> d = 7 \<or> d = 8 \<or> d = (9::nat)"
  by arith

lemma digit_char_props:
  assumes "d < 10"
  shows "isDigit (digit_char d)" "digit_value (digit_char d) = d"
    "\<not> isWhiteSpace (digit_char d)" "digit_char d \<noteq> CHR ''+''" "digit_char d \<noteq> CHR ''-''"
  using digit_char_cases [OF assms]
  by (auto simp: digit_char_def isDigit_def digit_value_def isWhiteSpace_def)

lemma string_of_nat_digits: "\<forall>c \<in> set (string_of_nat n). isDigit c"
proof (induction n rule: string_of_nat.induct)
  case (1 n)
  show ?case
  proof (cases "n < 10")
    case True
    then show ?thesis by (subst string_of_nat.simps) (simp add: digit_char_props)
  next
    case False
    with 1 show ?thesis by (subst string_of_nat.simps) (simp add: digit_char_props)
  qed
qed

lemma string_of_nat_value: "foldl (\<lambda>a c. 10 * a + digit_value c) 0 (string_of_nat n) = n"
proof (induction n rule: string_of_nat.induct)
  case (1 n)
  show ?case
  proof (cases "n < 10")
    case True
    then show ?thesis by (subst string_of_nat.simps) (simp add: digit_char_props)
  next
    case False
    with 1 show ?thesis by (subst string_of_nat.simps) (simp add: digit_char_props)
  qed
qed

lemma string_of_nat_nonempty: "string_of_nat n \<noteq> []"
  by (subst string_of_nat.simps) simp

lemma isDigit_plain: "isDigit c \<Longrightarrow> \<not> isWhiteSpace c \<and> c \<noteq> CHR ''+'' \<and> c \<noteq> CHR ''-''"
  by (auto simp: isDigit_def isWhiteSpace_def)

lemma round_double_exact: "n < 2 ^ 53 \<Longrightarrow> round_double n = Some n"
  by (simp add: round_double_def)

lemma parseInt10_digits:
  assumes "z \<noteq> []" "\<forall>c \<in> set z. isDigit c" "foldl (\<lambda>a c. 10 * a + digit_value c) 0 z < 2 ^ 53"
  shows "parseInt10 z = Num (int (foldl (\<lambda>a c. 10 * a + digit_value c) 0 z))"
    "parseInt10 (CHR ''-'' # z) = Num (- int (foldl (\<lambda>a c. 10 * a + digit_value c) 0 z))"
proof -
  from assms obtain c cs where z: "z = c # cs" and c: "isDigit c" by (cases z) auto
  have tw: "takeWhile isDigit z = z" using assms(2) by (simp add: takeWhile_eq_all_conv)
  have m: "\<not> isWhiteSpace (CHR ''-'')" by (simp add: isWhiteSpace_def)
  note r = round_double_exact [OF assms(3)]
  show "parseInt10 z = Num (int (foldl (\<lambda>a c. 10 * a + digit_value c) 0 z))"
    using isDigit_plain [OF c] assms(1) tw r by (simp add: parseInt10_def z Let_def)
  show "parseInt10 (CHR ''-'' # z) = Num (- int (foldl (\<lambda>a c. 10 * a + digit_value c) 0 z))"
    using assms(1) m r by (simp add: parseInt10_def Let_def tw)
qed

lemma string_of_int_exact:
  assumes "\<bar>i\<bar> < 2 ^ 53"
  shows "string_of_int i = (if i < 0 then CHR ''-'' # string_of_nat (nat (- i)) else string_of_nat (nat i))"
proof -
  have "nat \<bar>i\<bar> < 2 ^ 53" using assms by (simp add: nat_less_iff)
  then show ?thesis
    by (auto simp: string_of_int_def number_of_int_def round_double_exact string_of_double_def)
qed

lemma parseInt10_string_of_int:
  assumes "\<bar>i\<bar> < 2 ^ 53"
  shows "parseInt10 (string_of_int i) = Num i"
proof -
  have n: "nat \<bar>i\<bar> < 2 ^ 53" using assms by (simp add: nat_less_iff)
  have v: "foldl (\<lambda>a c. 10 * a + digit_value c) 0 (string_of_nat (nat \<bar>i\<bar>)) < 2 ^ 53"
    using n by (simp add: string_of_nat_value)
  from parseInt10_digits [OF string_of_nat_nonempty string_of_nat_digits v]
  show ?thesis
    by (cases "i < 0") (simp_all add: string_of_int_exact [OF assms] string_of_nat_value)
qed

subsection \<open>Rounding and printing at the edge of the doubles\<close>

lemma parseInt10_rounds_to_even:
  "parseInt10 ''9007199254740993'' = Num 9007199254740992"
  by (simp add: parseInt10_def isWhiteSpace_def isDigit_def digit_value_def round_double_def
      bit_length.simps Let_def)

lemma parseInt10_1e21:
  "parseInt10 ''1000000000000000000000'' = Num 1000000000000000000000"
  by (simp add: parseInt10_def isWhiteSpace_def isDigit_def digit_value_def round_double_def
      bit_length.simps Let_def)

lemma string_of_double_2_53:
  "string_of_double 9007199254740992 = ''9007199254740992''"
  by (simp add: string_of_double_def candidate_def round_double_def bit_length.simps Let_def
      string_of_nat.simps digit_char_def)

lemma round_double_1e21: "round_double 1000000000000000000000 = Some 1000000000000000000000"
  by (simp add: round_double_def bit_length.simps Let_def)

lemma round_double_2e21: "round_double 2000000000000000000000 = Some 2000000000000000000000"
  by (simp add: round_double_def bit_length.simps Let_def)

lemma string_of_double_1e21:
  "string_of_double 1000000000000000000000 = ''1e+21''"
proof -
  let ?x = "1000000000000000000000 :: nat"
  have a: "length (string_of_nat ?x) - 1 = Suc 20"
    by (simp add: string_of_nat.simps digit_char_def)
  have b: "candidate ?x (10 ^ Suc 20) = Some ?x"
    by (simp add: candidate_def Let_def round_double_1e21 round_double_2e21)
  have c: "shortest ?x (Suc 20) = ?x"
    unfolding shortest.simps b by simp
  have d: "exponent_form ?x = ''1e+21''"
    by (simp add: exponent_form_def string_of_nat.simps digit_char_def)
  show ?thesis
    unfolding string_of_double_def a c by (simp add: d)
qed

subsection \<open>Tables\<close>

lemma find_primary_key:
  "distinct (map k rows) \<Longrightarrow> x \<in> set rows \<Longrightarrow> find (\<lambda>r. k r = k x) rows = Some x"
  by (induction rows) (auto simp: rev_image_eqI)

lemma find_exists: "(\<exists>x \<in> set xs. P x) \<longleftrightarrow> find P xs \<noteq> None"
  by (induction xs) auto

subsection \<open>The permission set\<close>

lemma set_add_role_permissions:
  "set (add_role_permissions rps s) = set s \<union> (\<lambda>rp. permission_name (permission rp)) ` set rps"
  by (induction rps arbitrary: s) (auto simp: set_add_def)

lemma distinct_add_role_permissions:
  "distinct s \<Longrightarrow> distinct (add_role_permissions rps s)"
  by (induction rps arbitrary: s) (auto simp: set_add_def)

lemma set_add_user_roles:
  "set (add_user_roles urs s) =
     set s \<union> (\<Union>ur \<in> set urs. (\<lambda>rp. permission_name (permission rp)) ` set (role_permissions (role ur)))"
  by (induction urs arbitrary: s) (auto simp: set_add_role_permissions)

lemma distinct_add_user_roles:
  "distinct s \<Longrightarrow> distinct (add_user_roles urs s)"
  by (induction urs arbitrary: s) (auto simp: distinct_add_role_permissions)

lemma permissions_set:
  "set (permissions u) =
     (\<Union>ur \<in> set (user_roles u). (\<lambda>rp. permission_name (permission rp)) ` set (role_permissions (role ur)))"
  by (simp add: permissions_def set_add_user_roles)

lemma permissions_distinct: "distinct (permissions u)"
  by (simp add: permissions_def distinct_add_user_roles)

lemma rbac_outcome:
  "fst (rbac p (req\<lparr>user := Some u\<rparr>) w) =
     (if p \<in> set (permissions u) then Next None
      else Next (Some (ForbiddenError (''Insufficient permissions. Required: '' @ p))))"
  by (simp add: rbac_def rbac_try_def set_has_def Let_def)

lemma rbac_world:
  "store (snd (rbac p req w)) = store w \<and> queries (snd (rbac p req w)) = queries w"
  by (simp add: rbac_def rbac_try_def logger_def Let_def split: option.splits)

subsection \<open>The runs of the ReBAC middleware, one lemma for each way through it\<close>

text \<open>The guard of line 27 lets through the integers from 1 on and \<open>Infinity\<close>.\<close>

lemma guard_iff:
  "(falsy i \<or> isNaN i \<or> less_than i 1) \<longleftrightarrow> \<not> ((\<exists>n. i = Num n \<and> 1 \<le> n) \<or> i = PosInfinity)"
  by (cases i) auto

lemma rebac_no_user:
  assumes "user req = None"
  shows "rebacResource t req w = (Next (Some (UnauthorizedError ''User not authenticated'')), w)"
  using assms by (simp add: rebacResource_def rebac_try_def)

lemma rebac_bad_id:
  assumes "user req = Some u" "parseInt10 (to_string (params_id req)) = i"
    "falsy i \<or> isNaN i \<or> less_than i 1"
  shows "rebacResource t req w = (Next (Some (BadRequestError ''Invalid or missing record ID'')), w)"
  using assms by (auto simp: rebac_defs)

lemma rebac_read_fails:
  assumes "user req = Some u" "parseInt10 (to_string (params_id req)) = i"
    "\<not> (falsy i \<or> isNaN i \<or> less_than i 1)"
    "fault w (length (queries w)) (PatientRecordFindUnique i) = Some e"
  shows "fst (rebacResource t req w) = Next (Some (PrismaClientError e))"
    "issued w (snd (rebacResource t req w)) = [(PatientRecordFindUnique i, Some e)]"
  using assms by (auto simp: rebac_defs)

lemma rebac_not_found:
  assumes "user req = Some u" "parseInt10 (to_string (params_id req)) = i"
    "\<not> (falsy i \<or> isNaN i \<or> less_than i 1)"
    "fault w (length (queries w)) (PatientRecordFindUnique i) = None"
    "find (\<lambda>r. Num (record_id r) = i) (patientRecords (store w)) = None"
  shows "fst (rebacResource t req w) =
      Next (Some (NotFoundError (''Record with ID '' @ string_of_number i @ '' not found'')))"
    "issued w (snd (rebacResource t req w)) = [(PatientRecordFindUnique i, None)]"
  using assms by (auto simp: rebac_defs)

lemma rebac_owner:
  assumes "user req = Some u" "parseInt10 (to_string (params_id req)) = i"
    "\<not> (falsy i \<or> isNaN i \<or> less_than i 1)"
    "fault w (length (queries w)) (PatientRecordFindUnique i) = None"
    "find (\<lambda>r. Num (record_id r) = i) (patientRecords (store w)) = Some x"
    "ownerId x = user_id u"
  shows "fst (rebacResource t req w) = Next None"
    "issued w (snd (rebacResource t req w)) = [(PatientRecordFindUnique i, None)]"
  using assms by (auto simp: rebac_defs)

lemma rebac_edge_fails:
  assumes "user req = Some u" "parseInt10 (to_string (params_id req)) = i"
    "\<not> (falsy i \<or> isNaN i \<or> less_than i 1)"
    "fault w (length (queries w)) (PatientRecordFindUnique i) = None"
    "find (\<lambda>r. Num (record_id r) = i) (patientRecords (store w)) = Some x"
    "ownerId x \<noteq> user_id u"
    "fault w (Suc (length (queries w))) (RelationshipFindUnique (user_id u) (ownerId x) t) = Some e"
  shows "fst (rebacResource t req w) = Next (Some (PrismaClientError e))"
    "issued w (snd (rebacResource t req w)) =
       [(PatientRecordFindUnique i, None), (RelationshipFindUnique (user_id u) (ownerId x) t, Some e)]"
  using assms by (auto simp: rebac_defs)

lemma rebac_edge:
  assumes "user req = Some u" "parseInt10 (to_string (params_id req)) = i"
    "\<not> (falsy i \<or> isNaN i \<or> less_than i 1)"
    "fault w (length (queries w)) (PatientRecordFindUnique i) = None"
    "find (\<lambda>r. Num (record_id r) = i) (patientRecords (store w)) = Some x"
    "ownerId x \<noteq> user_id u"
    "fault w (Suc (length (queries w))) (RelationshipFindUnique (user_id u) (ownerId x) t) = None"
  shows "fst (rebacResource t req w) =
      (if \<exists>e \<in> set (relationships (store w)).
            subjectId e = user_id u \<and> objectId e = ownerId x \<and> rel_type e = t
       then Next None
       else Next (Some (ForbiddenError (''No '' @ t @ '' relationship found with record owner''))))"
    "issued w (snd (rebacResource t req w)) =
       [(PatientRecordFindUnique i, None), (RelationshipFindUnique (user_id u) (ownerId x) t, None)]"
proof -
  let ?P = "\<lambda>r. subjectId r = user_id u \<and> objectId r = ownerId x \<and> rel_type r = t"
  have ex: "(\<exists>e \<in> set (relationships (store w)). ?P e) \<longleftrightarrow> find ?P (relationships (store w)) \<noteq> None"
    by (rule find_exists)
  show "fst (rebacResource t req w) =
      (if \<exists>e \<in> set (relationships (store w)). ?P e
       then Next None
       else Next (Some (ForbiddenError (''No '' @ t @ '' relationship found with record owner''))))"
    unfolding ex using assms by (auto simp: rebac_defs split: option.splits)
  show "issued w (snd (rebacResource t req w)) =
       [(PatientRecordFindUnique i, None), (RelationshipFindUnique (user_id u) (ownerId x) t, None)]"
    using assms by (auto simp: rebac_defs split: option.splits)
qed

lemma rebac_store: "store (snd (rebacResource t req w)) = store w"
  by (simp add: rebac_defs split: option.splits prod.splits sum.splits error.splits)

text \<open>What a run can add to the queries: a failed read is the last one, and its exception is the outcome.\<close>

lemma rebac_issued_cases:
  "issued w (snd (rebacResource t req w)) = [] \<or>
   (\<exists>q. issued w (snd (rebacResource t req w)) = [(q, None)]) \<or>
   (\<exists>q q'. issued w (snd (rebacResource t req w)) = [(q, None), (q', None)]) \<or>
   (\<exists>q e. issued w (snd (rebacResource t req w)) = [(q, Some e)]
       \<and> fst (rebacResource t req w) = Next (Some (PrismaClientError e))) \<or>
   (\<exists>q q' e. issued w (snd (rebacResource t req w)) = [(q, None), (q', Some e)]
       \<and> fst (rebacResource t req w) = Next (Some (PrismaClientError e)))"
proof (cases "user req")
  case None
  then show ?thesis by (simp add: rebac_no_user issued_def)
next
  case (Some u)
  note u = this
  define i where "i = parseInt10 (to_string (params_id req))"
  then have i: "parseInt10 (to_string (params_id req)) = i" by simp
  show ?thesis
  proof (cases "falsy i \<or> isNaN i \<or> less_than i 1")
    case True
    from rebac_bad_id [OF u i True] show ?thesis by (simp add: issued_def)
  next
    case False
    note g = this
    show ?thesis
    proof (cases "fault w (length (queries w)) (PatientRecordFindUnique i)")
      case (Some e)
      from rebac_read_fails [OF u i g Some] show ?thesis by simp
    next
      case None
      note ok = this
      show ?thesis
      proof (cases "find (\<lambda>r. Num (record_id r) = i) (patientRecords (store w))")
        case None
        from rebac_not_found [OF u i g ok None] show ?thesis by simp
      next
        case (Some x)
        note x = this
        show ?thesis
        proof (cases "ownerId x = user_id u")
          case True
          from rebac_owner [OF u i g ok x True] show ?thesis by simp
        next
          case False
          show ?thesis
          proof (cases "fault w (Suc (length (queries w)))
                          (RelationshipFindUnique (user_id u) (ownerId x) t)")
            case None
            from rebac_edge(2) [OF u i g ok x False None] show ?thesis by simp
          next
            case (Some e)
            from rebac_edge_fails [OF u i g ok x False Some] show ?thesis by simp
          qed
        qed
      qed
    qed
  qed
qed

lemma rebac_fault:
  "(q, Some e) \<in> set (issued w (snd (rebacResource t req w)))
     \<Longrightarrow> fst (rebacResource t req w) = Next (Some (PrismaClientError e))"
  using rebac_issued_cases [of w t req] by auto

lemma getRecordById_fault:
  "(q, Some e) \<in> set (issued w (snd (getRecordById i w)))
     \<Longrightarrow> fst (getRecordById i w) = Inl (DatabaseError ''Failed to fetch record'')"
  by (cases "fault w (length (queries w)) (PatientRecordFindUnique i)";
      cases "find (\<lambda>r. Num (record_id r) = i) (patientRecords (store w))")
     (simp_all add: getRecordById_def getRecordById_try_def rebac_defs)

section \<open>RBAC claims\<close>

text \<open>
  C4.  The permission set that \<open>rbac\<close> builds for a user is the union, over the
  user's roles, of the permission names of each role; it holds every name once
  (the list of its elements is distinct, so a permission granted by several
  roles appears once).  \<open>has\<close> answers true exactly when some role of the user
  carries a permission whose name equals the required one, and the check lets
  the request through in that case and denies it otherwise.
\<close>

theorem permissions_union_of_roles:
  "set (permissions u) =
     (\<Union>ur \<in> set (user_roles u). (\<lambda>rp. permission_name (permission rp)) ` set (role_permissions (role ur)))
   \<and> distinct (permissions u)
   \<and> (set_has (permissions u) p \<longleftrightarrow>
        (\<exists>ur \<in> set (user_roles u). \<exists>rp \<in> set (role_permissions (role ur)).
            permission_name (permission rp) = p))
   \<and> decide (fst (rbac p (req\<lparr>user := Some u\<rparr>) w)) = (if set_has (permissions u) p then Allow else Deny)"
  by (auto simp: permissions_set permissions_distinct set_has_def rbac_outcome)

text \<open>
  At a user who is both doctor and nurse: \<open>record:read\<close>, granted by both
  roles, is in the set once; a prefix or a wildcard of a granted name is not in it.
\<close>

theorem permissions_union_of_roles_witness:
  "permissions docNurse = [''record:read'', ''record:write'']
   \<and> set_has (permissions docNurse) ''record:read''
   \<and> \<not> set_has (permissions docNurse) ''record:''
   \<and> \<not> set_has (permissions docNurse) ''record:*''
   \<and> decide (fst (rbac ''record:read'' \<lparr>user = Some docNurse, params_id = Some ''1''\<rparr> seeded)) = Allow
   \<and> decide (fst (rbac ''record:*'' \<lparr>user = Some docNurse, params_id = Some ''1''\<rparr> seeded)) = Deny"
  using permissions_union_of_roles [of docNurse "''record:read''"
      "\<lparr>user = Some docNurse, params_id = Some ''1''\<rparr>" seeded]
    permissions_union_of_roles [of docNurse "''record:*''"
      "\<lparr>user = Some docNurse, params_id = Some ''1''\<rparr>" seeded]
  by (simp add: eval_defs permissions_def set_add_def set_has_def)

text \<open>
  C5.  Adding a role never removes a permission: when the roles of a user are
  extended by one role \<open>r\<close> (wherever the new row comes in the list), every
  permission of the user is still a permission, and a check that let the user
  through still does.
\<close>

theorem permissions_monotone:
  assumes "set rs = insert r (set (user_roles u))"
  shows "set (permissions u) \<subseteq> set (permissions (u\<lparr>user_roles := rs\<rparr>))
    \<and> (decide (fst (rbac p (req\<lparr>user := Some u\<rparr>) w)) = Allow
         \<longrightarrow> decide (fst (rbac p (req\<lparr>user := Some (u\<lparr>user_roles := rs\<rparr>)\<rparr>) w)) = Allow)"
  using assms by (auto simp: permissions_set rbac_outcome)

text \<open>The nurse is made a doctor as well, the new row coming first.\<close>

theorem permissions_monotone_witness:
  "set [\<lparr>role = doctor\<rparr>, \<lparr>role = nurse\<rparr>] = insert \<lparr>role = doctor\<rparr> (set (user_roles nurseUser))
   \<and> permissions nurseUser = [''record:read'']
   \<and> ''record:read'' \<in> set (permissions (nurseUser\<lparr>user_roles := [\<lparr>role = doctor\<rparr>, \<lparr>role = nurse\<rparr>]\<rparr>))
   \<and> decide (fst (rbac ''record:read''
         \<lparr>user = Some (nurseUser\<lparr>user_roles := [\<lparr>role = doctor\<rparr>, \<lparr>role = nurse\<rparr>]\<rparr>),
          params_id = Some ''1''\<rparr> seeded)) = Allow"
  using permissions_monotone [of "[\<lparr>role = doctor\<rparr>, \<lparr>role = nurse\<rparr>]" "\<lparr>role = doctor\<rparr>" nurseUser
      "''record:read''" "\<lparr>user = Some nurseUser, params_id = Some ''1''\<rparr>" seeded]
  by (simp add: eval_defs permissions_def set_add_def set_has_def rbac_def rbac_try_def)

text \<open>
  C6.  A user with no role has the empty permission set (no error is raised),
  and the check denies every permission name with a \<open>ForbiddenError\<close>.
\<close>

theorem no_roles_denied:
  assumes "user_roles u = []"
  shows "permissions u = []
    \<and> fst (rbac p (req\<lparr>user := Some u\<rparr>) w) =
        Next (Some (ForbiddenError (''Insufficient permissions. Required: '' @ p)))
    \<and> decide (fst (rbac p (req\<lparr>user := Some u\<rparr>) w)) = Deny"
  using assms by (simp add: rbac_outcome permissions_def)

theorem no_roles_denied_witness:
  "user_roles patient = []
   \<and> permissions patient = []
   \<and> fst (rbac ''record:read'' \<lparr>user = Some patient, params_id = Some ''1''\<rparr> seeded) =
       Next (Some (ForbiddenError ''Insufficient permissions. Required: record:read''))"
  using no_roles_denied [of patient "''record:read''"
      "\<lparr>user = Some patient, params_id = Some ''1''\<rparr>" seeded]
  by (simp add: eval_defs)

text \<open>
  C10.  With no user attached to the request, both middlewares end with the
  \<open>UnauthorizedError\<close>, which is not a denial, and the world is as before: no
  permission set was built, no query was issued, nothing was logged.
\<close>

theorem unauthenticated_rejected:
  assumes "user req = None"
  shows "rbac p req w = (Next (Some (UnauthorizedError ''User not authenticated'')), w)
    \<and> rebacResource t req w = (Next (Some (UnauthorizedError ''User not authenticated'')), w)
    \<and> decide (fst (rbac p req w)) = Unauthorized
    \<and> decide (fst (rebacResource t req w)) = Unauthorized"
  using assms by (simp add: rbac_def rbac_try_def rebac_no_user)

theorem unauthenticated_rejected_witness:
  "rbac ''record:read'' \<lparr>user = None, params_id = Some ''1''\<rparr> seeded
     = (Next (Some (UnauthorizedError ''User not authenticated'')), seeded)
   \<and> rebacResource ''assigned_to'' \<lparr>user = None, params_id = Some ''1''\<rparr> seeded
     = (Next (Some (UnauthorizedError ''User not authenticated'')), seeded)"
  using unauthenticated_rejected [of "\<lparr>user = None, params_id = Some ''1''\<rparr>"
      "''record:read''" seeded "''assigned_to''"]
  by simp

text \<open>
  C8.  A decision reads and never writes: after either middleware the database
  (users with their roles and permissions, patient records, relationships) is
  the one before the call.  The RBAC check issues no query at all.
\<close>

theorem decision_leaves_store:
  "store (snd (rbac p req w)) = store w
   \<and> queries (snd (rbac p req w)) = queries w
   \<and> store (snd (rebacResource t req w)) = store w"
  by (simp add: rbac_world rebac_store)

section \<open>ReBAC claims\<close>

text \<open>
  In the claims below a resource is a row \<open>x\<close> of the patient-record table,
  whose identifiers are unique (the primary key), and the request names it: its
  \<open>id\<close> parameter parses to the number \<open>record_id x\<close>, a positive integer (an
  identifier below \<open>2^53\<close> written in decimal is such a parameter, by
  \<open>parseInt10_string_of_int\<close>).  Claims about the answer of a check are about
  runs whose reads succeed; C7 is about the others.
\<close>

text \<open>
  C1.  When the user attached to the request owns the resource, the check lets
  the request through for every relation type.  The ownership test comes before
  the edge lookup: the only query issued is the one for the record, and the
  answer is the same whatever the relationship table holds.
\<close>

theorem owner_always_allowed:
  assumes "user req = Some s"
    and "parseInt10 (to_string (params_id req)) = Num (record_id x)" and "1 \<le> record_id x"
    and "fault w (length (queries w)) (PatientRecordFindUnique (Num (record_id x))) = None"
    and "distinct (map record_id (patientRecords (store w)))"
    and "x \<in> set (patientRecords (store w))"
    and "ownerId x = user_id s"
  shows "fst (rebacResource t req w) = Next None
    \<and> decide (fst (rebacResource t req w)) = Allow
    \<and> fst (rebacResource t req (w\<lparr>store := (store w)\<lparr>relationships := rels\<rparr>\<rparr>)) = Next None
    \<and> issued w (snd (rebacResource t req w)) = [(PatientRecordFindUnique (Num (record_id x)), None)]"
proof -
  have f: "find (\<lambda>r. Num (record_id r) = Num (record_id x)) (patientRecords (store w)) = Some x"
    using find_primary_key [OF assms(5,6)] by simp
  have g: "\<not> (falsy (Num (record_id x)) \<or> isNaN (Num (record_id x)) \<or> less_than (Num (record_id x)) 1)"
    using assms(3) by simp
  let ?w = "w\<lparr>store := (store w)\<lparr>relationships := rels\<rparr>\<rparr>"
  have "fst (rebacResource t req ?w) = Next None"
    by (rule rebac_owner(1) [where u = s and i = "Num (record_id x)" and x = x])
       (use assms f in simp_all)
  with rebac_owner [OF assms(1,2) g assms(4) f assms(7)] show ?thesis by simp
qed

text \<open>
  The patient asks for the own record under the relation \<open>manages\<close>, for which
  the seed data has no edge, and again with the relationship table emptied.
\<close>

theorem owner_always_allowed_witness:
  "fst (rebacResource ''manages'' \<lparr>user = Some patient, params_id = Some ''1''\<rparr> seeded) = Next None
   \<and> fst (rebacResource ''manages'' \<lparr>user = Some patient, params_id = Some ''1''\<rparr>
         (seeded\<lparr>store := (store seeded)\<lparr>relationships := []\<rparr>\<rparr>)) = Next None
   \<and> issued seeded (snd (rebacResource ''manages'' \<lparr>user = Some patient, params_id = Some ''1''\<rparr> seeded))
       = [(PatientRecordFindUnique (Num 1), None)]"
  using owner_always_allowed [of "\<lparr>user = Some patient, params_id = Some ''1''\<rparr>" patient rec1
      seeded "''manages''" "[]"]
  by (simp add: eval_defs)

text \<open>
  C2.  The identifier of the request is the number that \<open>parseInt\<close> makes of
  the \<open>id\<close> parameter.  When no patient record has that identifier, the check
  never denies and never allows, whoever asks and whether or not the read
  succeeds.  When a user is attached, the number passes the guard of line 27
  and the read succeeds, the outcome is the \<open>NotFoundError\<close> that names the
  number as JavaScript prints it; the record lookup is then the only query
  issued, so the missing record is found out before any ownership test or edge
  lookup.
\<close>

theorem missing_resource_not_found:
  assumes "parseInt10 (to_string (params_id req)) = i"
    and "\<forall>r \<in> set (patientRecords (store w)). Num (record_id r) \<noteq> i"
  shows "decide (fst (rebacResource t req w)) \<noteq> Deny
    \<and> decide (fst (rebacResource t req w)) \<noteq> Allow
    \<and> (user req \<noteq> None \<and> ((\<exists>n. i = Num n \<and> 1 \<le> n) \<or> i = PosInfinity)
          \<and> fault w (length (queries w)) (PatientRecordFindUnique i) = None
        \<longrightarrow> fst (rebacResource t req w) =
              Next (Some (NotFoundError (''Record with ID '' @ string_of_number i @ '' not found'')))
            \<and> decide (fst (rebacResource t req w)) = NotFound
            \<and> issued w (snd (rebacResource t req w)) = [(PatientRecordFindUnique i, None)])"
proof -
  have f: "find (\<lambda>r. Num (record_id r) = i) (patientRecords (store w)) = None"
    using assms(2) by (simp add: find_None_iff)
  show ?thesis
  proof (cases "user req")
    case None
    then show ?thesis by (simp add: rebac_no_user)
  next
    case (Some u)
    note u = this
    show ?thesis
    proof (cases "falsy i \<or> isNaN i \<or> less_than i 1")
      case True
      from rebac_bad_id [OF u assms(1) True] True show ?thesis by (simp add: guard_iff)
    next
      case False
      note g = this
      show ?thesis
      proof (cases "fault w (length (queries w)) (PatientRecordFindUnique i)")
        case None
        from rebac_not_found [OF u assms(1) g None f] show ?thesis by simp
      next
        case (Some e)
        from rebac_read_fails [OF u assms(1) g Some] Some show ?thesis by simp
      qed
    qed
  qed
qed

text \<open>
  The doctor asks for record 999, which the seed data does not have; for
  \<open>9007199254740993\<close>, which is read as the double \<open>9007199254740992\<close>; and for
  \<open>10^21\<close>, which is printed in exponent form.
\<close>

theorem missing_resource_not_found_witness:
  "map record_id (patientRecords (store seeded)) = [1, 2]
   \<and> decide (fst (rebacResource ''assigned_to'' \<lparr>user = Some docUser, params_id = Some ''999''\<rparr> seeded)) \<noteq> Deny
   \<and> fst (rebacResource ''assigned_to'' \<lparr>user = Some docUser, params_id = Some ''999''\<rparr> seeded) =
       Next (Some (NotFoundError ''Record with ID 999 not found''))
   \<and> issued seeded (snd (rebacResource ''assigned_to'' \<lparr>user = Some docUser, params_id = Some ''999''\<rparr> seeded))
       = [(PatientRecordFindUnique (Num 999), None)]
   \<and> fst (rebacResource ''assigned_to''
         \<lparr>user = Some docUser, params_id = Some ''9007199254740993''\<rparr> seeded) =
       Next (Some (NotFoundError ''Record with ID 9007199254740992 not found''))
   \<and> issued seeded (snd (rebacResource ''assigned_to''
         \<lparr>user = Some docUser, params_id = Some ''9007199254740993''\<rparr> seeded))
       = [(PatientRecordFindUnique (Num 9007199254740992), None)]
   \<and> fst (rebacResource ''assigned_to''
         \<lparr>user = Some docUser, params_id = Some ''1000000000000000000000''\<rparr> seeded) =
       Next (Some (NotFoundError ''Record with ID 1e+21 not found''))"
proof -
  have pa: "parseInt10 (to_string (params_id \<lparr>user = Some docUser, params_id = Some ''999''\<rparr>)) = Num 999"
    by (simp add: eval_defs)
  have pb: "parseInt10 (to_string (params_id \<lparr>user = Some docUser, params_id = Some ''9007199254740993''\<rparr>))
      = Num 9007199254740992"
    by (simp add: to_string_def parseInt10_rounds_to_even)
  have pc: "parseInt10 (to_string (params_id \<lparr>user = Some docUser, params_id = Some ''1000000000000000000000''\<rparr>))
      = Num 1000000000000000000000"
    by (simp add: to_string_def parseInt10_1e21)
  have sa: "\<forall>r \<in> set (patientRecords (store seeded)). Num (record_id r) \<noteq> Num 999"
    and sb: "\<forall>r \<in> set (patientRecords (store seeded)). Num (record_id r) \<noteq> Num 9007199254740992"
    and sc: "\<forall>r \<in> set (patientRecords (store seeded)). Num (record_id r) \<noteq> Num 1000000000000000000000"
    by (simp_all add: seeded_def seed_def rec1_def rec2_def)
  have s: "map record_id (patientRecords (store seeded)) = [1, 2]"
    "fault seeded k q = None" "queries seeded = []" for k q
    by (simp_all add: seeded_def seed_def rec1_def rec2_def)
  have p: "string_of_double 999 = ''999''"
    by (simp add: eval_defs)
  from missing_resource_not_found [OF pa sa, of "''assigned_to''"]
    missing_resource_not_found [OF pb sb, of "''assigned_to''"]
    missing_resource_not_found [OF pc sc, of "''assigned_to''"]
  show ?thesis
    by (simp add: s p string_of_double_2_53 string_of_double_1e21)
qed

text \<open>
  With a record \<open>9007199254740992\<close> in the table, the request for
  \<open>9007199254740993\<close> finds it: the nurse, who has no edge to its owner, is
  denied.
\<close>

lemma rounded_identifier_resolves:
  "fst (rebacResource ''assigned_to''
        \<lparr>user = Some nurseUser, params_id = Some ''9007199254740993''\<rparr> seeded_large) =
     Next (Some (ForbiddenError ''No assigned_to relationship found with record owner''))"
  by (simp add: rebac_defs to_string_def parseInt10_rounds_to_even seeded_large_def seeded_def
      seed_def rec1_def rec2_def rec3_def nurseUser_def)

text \<open>
  C3.  For a user \<open>a\<close> who is not the owner \<open>b\<close> of the resource, the check lets
  the request through exactly when the relationship table has a row with
  subject \<open>a\<close>, object \<open>b\<close> and the required type; otherwise the outcome is the
  \<open>ForbiddenError\<close>.  A row between the two of another type does not count.
\<close>

theorem edge_lookup_type_exact:
  assumes "user req = Some a"
    and "parseInt10 (to_string (params_id req)) = Num (record_id x)" and "1 \<le> record_id x"
    and "distinct (map record_id (patientRecords (store w)))"
    and "x \<in> set (patientRecords (store w))"
    and "ownerId x = b" and "user_id a \<noteq> b"
    and "fault w (length (queries w)) (PatientRecordFindUnique (Num (record_id x))) = None"
    and "fault w (Suc (length (queries w))) (RelationshipFindUnique (user_id a) b t) = None"
  shows "(decide (fst (rebacResource t req w)) = Allow \<longleftrightarrow>
           (\<exists>e \<in> set (relationships (store w)). subjectId e = user_id a \<and> objectId e = b \<and> rel_type e = t))
    \<and> (decide (fst (rebacResource t req w)) \<noteq> Allow \<longrightarrow>
           fst (rebacResource t req w) =
             Next (Some (ForbiddenError (''No '' @ t @ '' relationship found with record owner'')))
           \<and> decide (fst (rebacResource t req w)) = Deny)"
proof -
  have f: "find (\<lambda>r. Num (record_id r) = Num (record_id x)) (patientRecords (store w)) = Some x"
    using find_primary_key [OF assms(4,5)] by simp
  have g: "\<not> (falsy (Num (record_id x)) \<or> isNaN (Num (record_id x)) \<or> less_than (Num (record_id x)) 1)"
    using assms(3) by simp
  have "fst (rebacResource t req w) =
      (if \<exists>e \<in> set (relationships (store w)).
            subjectId e = user_id a \<and> objectId e = ownerId x \<and> rel_type e = t
       then Next None
       else Next (Some (ForbiddenError (''No '' @ t @ '' relationship found with record owner''))))"
    by (rule rebac_edge(1) [OF assms(1,2) g assms(8) f]) (use assms in auto)
  then show ?thesis using assms(6) by auto
qed

text \<open>
  The seed data has the edge (doctor, patient, \<open>assigned_to\<close>) and no other: the
  doctor reaches the patient's record under \<open>assigned_to\<close> and is denied under
  \<open>manages\<close>.
\<close>

theorem edge_lookup_type_exact_witness:
  "decide (fst (rebacResource ''assigned_to'' \<lparr>user = Some docUser, params_id = Some ''1''\<rparr> seeded)) = Allow
   \<and> fst (rebacResource ''manages'' \<lparr>user = Some docUser, params_id = Some ''1''\<rparr> seeded) =
       Next (Some (ForbiddenError ''No manages relationship found with record owner''))"
  using edge_lookup_type_exact [of "\<lparr>user = Some docUser, params_id = Some ''1''\<rparr>" docUser rec1
      seeded 3 "''assigned_to''"]
    edge_lookup_type_exact [of "\<lparr>user = Some docUser, params_id = Some ''1''\<rparr>" docUser rec1
      seeded 3 "''manages''"]
  by (simp add: eval_defs)

text \<open>
  C7.  A read that fails during a ReBAC check ends the check with the very
  exception of the Prisma client handed to \<open>next\<close>: a store failure, which is
  neither a denial nor a missing resource nor a pass.  A read that fails in
  \<open>getRecordById\<close> ends it with the \<open>DatabaseError\<close>, not with the
  \<open>NotFoundError\<close> and not with a record.
\<close>

theorem store_failure_surfaced:
  "((q, Some e) \<in> set (issued w (snd (rebacResource t req w)))
      \<longrightarrow> fst (rebacResource t req w) = Next (Some (PrismaClientError e))
        \<and> decide (fst (rebacResource t req w)) = StoreError
        \<and> decide (fst (rebacResource t req w)) \<noteq> Deny
        \<and> decide (fst (rebacResource t req w)) \<noteq> NotFound
        \<and> decide (fst (rebacResource t req w)) \<noteq> Allow)
   \<and> ((q', Some e') \<in> set (issued w (snd (getRecordById i w)))
      \<longrightarrow> fst (getRecordById i w) = Inl (DatabaseError ''Failed to fetch record''))"
  by (auto simp: rebac_fault getRecordById_fault)

text \<open>
  During an outage the record lookup fails; in the world \<open>flaky\<close> the record
  lookup succeeds and the edge lookup fails.
\<close>

theorem store_failure_surfaced_witness:
  "(PatientRecordFindUnique (Num 1), Some ''connection refused'')
      \<in> set (issued outage (snd (rebacResource ''assigned_to'' \<lparr>user = Some docUser, params_id = Some ''1''\<rparr> outage)))
   \<and> fst (rebacResource ''assigned_to'' \<lparr>user = Some docUser, params_id = Some ''1''\<rparr> outage)
       = Next (Some (PrismaClientError ''connection refused''))
   \<and> (RelationshipFindUnique 1 3 ''assigned_to'', Some ''timeout'')
      \<in> set (issued flaky (snd (rebacResource ''assigned_to'' \<lparr>user = Some docUser, params_id = Some ''1''\<rparr> flaky)))
   \<and> fst (rebacResource ''assigned_to'' \<lparr>user = Some docUser, params_id = Some ''1''\<rparr> flaky)
       = Next (Some (PrismaClientError ''timeout''))
   \<and> (PatientRecordFindUnique (Num 1), Some ''connection refused'')
      \<in> set (issued outage (snd (getRecordById (Num 1) outage)))
   \<and> fst (getRecordById (Num 1) outage) = Inl (DatabaseError ''Failed to fetch record'')"
  using store_failure_surfaced [of "PatientRecordFindUnique (Num 1)" "''connection refused''" outage
      "''assigned_to''" "\<lparr>user = Some docUser, params_id = Some ''1''\<rparr>"
      "PatientRecordFindUnique (Num 1)" "''connection refused''" "Num 1"]
    store_failure_surfaced [of "RelationshipFindUnique 1 3 ''assigned_to''" "''timeout''" flaky
      "''assigned_to''" "\<lparr>user = Some docUser, params_id = Some ''1''\<rparr>"
      "PatientRecordFindUnique (Num 1)" "''connection refused''" "Num 1"]
  by (simp add: eval_defs rebac_defs getRecordById_def getRecordById_try_def)




end
